theory Spec2Isabelle
  imports Complex_Main
begin

section \<open>The zk-profiler engine over an explicit file system\<close>

text \<open>
  The engine (\<^verbatim>\<open>profileCircuit\<close> and its helpers) reads a circuit's build artifacts
  through Node's synchronous \<^verbatim>\<open>fs\<close> calls and computes a report. The model passes the
  file system as a value and returns every thrown exception as \<open>Inl\<close>.

  JavaScript numbers that are byte sizes, counts and compute units are integers here
  (\<open>int\<close>); binary64 arithmetic on them is exact below \<open>2^53\<close>, and so is
  \<^verbatim>\<open>Math.floor(c / 10_000)\<close>, which is \<open>c div 10000\<close>. The fee and rent quotes
  are fractions: they are modelled in exact rational arithmetic, where the source
  computes in binary64, so only their presence and their decimal rounding rule are
  modelled, not the last binary digit.
\<close>

subsection \<open>Limits and economic constants\<close>

definition SOLANA_TX_MAX_BYTES :: int where
  "SOLANA_TX_MAX_BYTES = 1232"

definition SAFE_INSTRUCTION_DATA_LIMIT :: int where
  "SAFE_INSTRUCTION_DATA_LIMIT = 900"

definition SAFE_INSTRUCTION_DATA_LIMIT_ALT :: int where
  "SAFE_INSTRUCTION_DATA_LIMIT_ALT = 750"

definition FIELD_ELEMENT_BYTES :: int where
  "FIELD_ELEMENT_BYTES = 32"

definition RENT_SOL_PER_KB :: rat where
  "RENT_SOL_PER_KB = 7 / 1000"

definition MICRO_LAMPORTS_PER_LAMPORT :: rat where
  "MICRO_LAMPORTS_PER_LAMPORT = 1000000"

definition LAMPORTS_PER_SOL :: rat where
  "LAMPORTS_PER_SOL = 1000000000"

subsection \<open>Values read from disk\<close>

text \<open>
  What \<^verbatim>\<open>JSON.parse\<close> returns. Numbers are the integer literals; an object is
  its list of members, one entry per key. Strings are ASCII, so the list length is the
  JavaScript \<^verbatim>\<open>length\<close>.
\<close>

datatype json =
    JNull
  | JBool bool
  | JNum int
  | JStr string
  | JArr "json list"
  | JObj "(string \<times> json) list"

text \<open>
  The text of a regular file, as far as the engine looks at it: \<^verbatim>\<open>JSON.parse\<close>
  either throws a \<^verbatim>\<open>SyntaxError\<close> (\<open>NotJSON\<close>) or returns a value.
\<close>

datatype contents = NotJSON | JSON json

text \<open>
  A path names a regular file (its size in bytes and its text) or a directory (the size
  \<^verbatim>\<open>stat\<close> reports for it and its entries in listing order). Nothing changes the
  file system during a run, so the size \<^verbatim>\<open>statSync\<close> reports is the length
  \<^verbatim>\<open>readFileSync\<close> returns.
\<close>

datatype node = File nat contents | Dir nat "string list"

type_synonym filesystem = "string \<Rightarrow> node option"

text \<open>
  Exceptions. \<open>Error\<close> carries the message of a \<^verbatim>\<open>throw new Error(...)\<close> of the
  engine; the others are thrown by Node and the language. \<open>CountNotANumber\<close> is not a
  JavaScript exception: it marks the one place where the model stops, a \<^verbatim>\<open>length\<close>
  member that is neither a number nor null (see \<open>as_count\<close>).
\<close>

datatype error =
    Error string
  | ENOENT string
  | ENOTDIR string
  | EISDIR string
  | SyntaxError
  | TypeError
  | CountNotANumber

fun node_size :: "node \<Rightarrow> int" where
  "node_size (File n c) = int n"
| "node_size (Dir n es) = int n"

definition existsSync :: "filesystem \<Rightarrow> string \<Rightarrow> bool" where
  "existsSync fs p = (fs p \<noteq> None)"

text \<open>\<^verbatim>\<open>fs.statSync(p).size\<close>\<close>

definition statSync_size :: "filesystem \<Rightarrow> string \<Rightarrow> error + int" where
  "statSync_size fs p =
     (case fs p of None \<Rightarrow> Inl (ENOENT p) | Some n \<Rightarrow> Inr (node_size n))"

definition readdirSync :: "filesystem \<Rightarrow> string \<Rightarrow> error + string list" where
  "readdirSync fs p =
     (case fs p of
        None \<Rightarrow> Inl (ENOENT p)
      | Some (File n c) \<Rightarrow> Inl (ENOTDIR p)
      | Some (Dir n es) \<Rightarrow> Inr es)"

text \<open>\<^verbatim>\<open>fs.readFileSync(p).length\<close>\<close>

definition readFileSync_length :: "filesystem \<Rightarrow> string \<Rightarrow> error + int" where
  "readFileSync_length fs p =
     (case fs p of
        None \<Rightarrow> Inl (ENOENT p)
      | Some (Dir n es) \<Rightarrow> Inl (EISDIR p)
      | Some (File n c) \<Rightarrow> Inr (int n))"

text \<open>\<^verbatim>\<open>JSON.parse(fs.readFileSync(p, "utf8"))\<close>\<close>

definition readFileSync_JSON_parse :: "filesystem \<Rightarrow> string \<Rightarrow> error + json" where
  "readFileSync_JSON_parse fs p =
     (case fs p of
        None \<Rightarrow> Inl (ENOENT p)
      | Some (Dir n es) \<Rightarrow> Inl (EISDIR p)
      | Some (File n NotJSON) \<Rightarrow> Inl SyntaxError
      | Some (File n (JSON j)) \<Rightarrow> Inr j)"

subsection \<open>Strings and paths\<close>

definition endsWith :: "string \<Rightarrow> string \<Rightarrow> bool" where
  "endsWith s suf =
     (length suf \<le> length s \<and> drop (length s - length suf) s = suf)"

text \<open>
  \<^verbatim>\<open>s.replace(pat, rep)\<close> with a string pattern: only the first occurrence is
  replaced.
\<close>

fun js_replace :: "string \<Rightarrow> string \<Rightarrow> string \<Rightarrow> string" where
  "js_replace [] pat rep = (if pat = [] then rep else [])"
| "js_replace (c # cs) pat rep =
     (if take (length pat) (c # cs) = pat then rep @ drop (length pat) (c # cs)
      else c # js_replace cs pat rep)"

text \<open>
  \<^verbatim>\<open>path.join(a, b)\<close> for a normalised \<open>a\<close> without a trailing separator and a
  plain name \<open>b\<close> (the command-line entry passes \<^verbatim>\<open>path.resolve(circuitRoot)\<close>).
\<close>

definition path_join :: "string \<Rightarrow> string \<Rightarrow> string" where
  "path_join a b = a @ ''/'' @ b"

text \<open>A number inside a template literal: the decimal digits of an integer.\<close>

function show_nat :: "nat \<Rightarrow> string" where
  "show_nat n =
     (if n < 10 then [char_of (48 + n)]
      else show_nat (n div 10) @ [char_of (48 + n mod 10)])"
  by pat_completeness auto
termination
  by (relation "measure id") auto

definition show_int :: "int \<Rightarrow> string" where
  "show_int i = (if i < 0 then ''-'' @ show_nat (nat (- i)) else show_nat (nat i))"

subsection \<open>Path resolution\<close>

record artifacts =
  circuitName :: string
  targetDir :: string
  proofPath :: string
  pwPath :: string
  witnessPath :: string
  acirPath :: string
  vkPath :: string

definition resolveCircuitArtifacts :: "filesystem \<Rightarrow> string \<Rightarrow> error + artifacts" where
  "resolveCircuitArtifacts fs circuitRoot =
     (let targetDir' = path_join circuitRoot ''target'' in
      if \<not> existsSync fs targetDir'
      then Inl (Error (''Missing target/ directory in '' @ circuitRoot))
      else
        (case readdirSync fs targetDir' of
           Inl e \<Rightarrow> Inl e
         | Inr files \<Rightarrow>
             (case find (\<lambda>f. endsWith f ''.proof'') files of
                None \<Rightarrow> Inl (Error ''No .proof file found. Did you run `sunspot prove`?'')
              | Some proofFile \<Rightarrow>
                  (let circuitName' = js_replace proofFile ''.proof'' '''' in
                   Inr \<lparr> circuitName = circuitName',
                         targetDir = targetDir',
                         proofPath = path_join targetDir' (circuitName' @ ''.proof''),
                         pwPath = path_join targetDir' (circuitName' @ ''.pw''),
                         witnessPath = path_join targetDir' (circuitName' @ ''.gz''),
                         acirPath = path_join targetDir' (circuitName' @ ''.json''),
                         vkPath = path_join targetDir' (circuitName' @ ''.vk'') \<rparr>))))"

subsection \<open>Helpers\<close>

definition sizeIfExists :: "filesystem \<Rightarrow> string \<Rightarrow> error + int option" where
  "sizeIfExists fs filePath =
     (if \<not> existsSync fs filePath then Inr None
      else (case statSync_size fs filePath of Inl e \<Rightarrow> Inl e | Inr n \<Rightarrow> Inr (Some n)))"

definition estimatePublicInputs :: "filesystem \<Rightarrow> string \<Rightarrow> error + int option" where
  "estimatePublicInputs fs pwPath' =
     (if \<not> existsSync fs pwPath' then Inr None
      else
        (case readFileSync_length fs pwPath' of
           Inl e \<Rightarrow> Inl e
         | Inr bytes \<Rightarrow> Inr (Some (bytes div FIELD_ELEMENT_BYTES))))"

subsection \<open>ACIR analysis\<close>

text \<open>
  A property read \<^verbatim>\<open>v.k\<close>, for the two names the engine reads (\<^verbatim>\<open>constraints\<close>
  and \<^verbatim>\<open>length\<close>): on \<^verbatim>\<open>null\<close> it throws a \<^verbatim>\<open>TypeError\<close>; a string and an
  array have a \<^verbatim>\<open>length\<close>; an object has its members; everything else gives
  \<^verbatim>\<open>undefined\<close> (\<open>None\<close>).
\<close>

fun get_prop :: "json \<Rightarrow> string \<Rightarrow> error + json option" where
  "get_prop JNull k = Inl TypeError"
| "get_prop (JBool b) k = Inr None"
| "get_prop (JNum n) k = Inr None"
| "get_prop (JStr s) k = Inr (if k = ''length'' then Some (JNum (int (length s))) else None)"
| "get_prop (JArr xs) k = Inr (if k = ''length'' then Some (JNum (int (length xs))) else None)"
| "get_prop (JObj kvs) k = Inr (map_of kvs k)"

text \<open>\<^verbatim>\<open>v?.length\<close>: \<^verbatim>\<open>undefined\<close> when \<open>v\<close> is \<^verbatim>\<open>undefined\<close> or \<^verbatim>\<open>null\<close>.\<close>

definition optional_length :: "json option \<Rightarrow> error + json option" where
  "optional_length v =
     (case v of
        None \<Rightarrow> Inr None
      | Some JNull \<Rightarrow> Inr None
      | Some x \<Rightarrow> get_prop x ''length'')"

text \<open>
  \<^verbatim>\<open>v ?? undefined\<close>, read as the declared \<^verbatim>\<open>number | undefined\<close>. A
  \<^verbatim>\<open>length\<close> that is a boolean, string, array or object would be returned as it is
  and coerced by the arithmetic that follows; that coercion is outside the model, which
  stops with \<open>CountNotANumber\<close>.
\<close>

definition as_count :: "json option \<Rightarrow> error + int option" where
  "as_count v =
     (case v of
        None \<Rightarrow> Inr None
      | Some JNull \<Rightarrow> Inr None
      | Some (JNum n) \<Rightarrow> Inr (Some n)
      | Some x \<Rightarrow> Inl CountNotANumber)"

text \<open>
  The body of the \<^verbatim>\<open>try\<close> block: \<^verbatim>\<open>acir.constraints?.length\<close> of the parsed file.
\<close>

definition constraints_length :: "filesystem \<Rightarrow> string \<Rightarrow> error + json option" where
  "constraints_length fs acirPath' =
     (case readFileSync_JSON_parse fs acirPath' of
        Inl e \<Rightarrow> Inl e
      | Inr acir \<Rightarrow>
          (case get_prop acir ''constraints'' of
             Inl e \<Rightarrow> Inl e
           | Inr c \<Rightarrow> optional_length c))"

definition extractConstraintCount :: "filesystem \<Rightarrow> string \<Rightarrow> error + int option" where
  "extractConstraintCount fs acirPath' =
     (if \<not> existsSync fs acirPath' then Inr None
      else
        (case constraints_length fs acirPath' of
           Inl e \<Rightarrow> Inr None
         | Inr v \<Rightarrow> as_count v))"

subsection \<open>Compute unit prediction\<close>

text \<open>
  The two destructured parameters default to 0 when \<^verbatim>\<open>undefined\<close>.
\<close>

definition predictComputeUnits :: "int option \<Rightarrow> int option \<Rightarrow> int" where
  "predictComputeUnits publicInputs_opt constraintCount_opt =
     (let publicInputs = (case publicInputs_opt of None \<Rightarrow> 0 | Some n \<Rightarrow> n);
          constraintCount = (case constraintCount_opt of None \<Rightarrow> 0 | Some n \<Rightarrow> n);
          BASE_VERIFY_CU = 150000;
          CU_PER_PUBLIC_INPUT = 12000;
          CU_PER_10K_CONSTRAINTS = 20000;
          constraintCU = (constraintCount div 10000) * CU_PER_10K_CONSTRAINTS;
          totalCU = BASE_VERIFY_CU + publicInputs * CU_PER_PUBLIC_INPUT + constraintCU
      in totalCU)"

subsection \<open>Priority fee and rent estimation\<close>

text \<open>
  \<^verbatim>\<open>Number(x.toFixed(d))\<close>: the nearest multiple of \<open>10^-d\<close>, a tie going away
  from zero.
\<close>

definition Number_toFixed :: "nat \<Rightarrow> rat \<Rightarrow> rat" where
  "Number_toFixed d x =
     (if x < 0 then - (of_int \<lfloor>(- x) * 10 ^ d + 1 / 2\<rfloor> / 10 ^ d)
      else of_int \<lfloor>x * 10 ^ d + 1 / 2\<rfloor> / 10 ^ d)"

definition fee_table :: "(string \<times> int) list" where
  "fee_table = [(''low'', 200), (''medium'', 800), (''high'', 2500)]"

definition estimatePriorityFees :: "int \<Rightarrow> (string \<times> rat) list" where
  "estimatePriorityFees totalCU =
     map (\<lambda>(level, microLamportsPerCU).
            (let microLamports = of_int (totalCU * microLamportsPerCU);
                 lamports = microLamports / MICRO_LAMPORTS_PER_LAMPORT
             in (level, Number_toFixed 6 (lamports / LAMPORTS_PER_SOL))))
         fee_table"

text \<open>\<^verbatim>\<open>if (!bytes) return undefined\<close>: \<^verbatim>\<open>undefined\<close> and 0 are both falsy.\<close>

definition estimateRent :: "int option \<Rightarrow> rat option" where
  "estimateRent bytes_opt =
     (case bytes_opt of
        None \<Rightarrow> None
      | Some bytes \<Rightarrow>
          if bytes = 0 then None
          else Some (Number_toFixed 4 ((of_int bytes / 1024) * RENT_SOL_PER_KB)))"

subsection \<open>Core profiler\<close>

datatype status = PASS | WARN | FAIL

record options =
  usesALT :: "bool option"

record ProfileResult =
  circuitName :: string
  proofBytes :: int
  publicWitnessBytes :: int
  instructionDataBytes :: int
  effectiveInstructionLimit :: int
  publicInputCount :: "int option"
  constraintCount :: "int option"
  totalCU :: int
  priorityFees :: "(string \<times> rat) list"
  vkRentEstimateSOL :: "rat option"
  witnessBytes :: "int option"
  acirBytes :: "int option"
  fitsInSolanaTx :: bool
  status :: status
  warnings :: "string list"

text \<open>
  The part of \<^verbatim>\<open>profileCircuit\<close> after the file reads: limits, warnings in the order
  they are pushed, costs, status and the returned object.
\<close>

definition assemble ::
  "string \<Rightarrow> int \<Rightarrow> int \<Rightarrow> int option \<Rightarrow> int option \<Rightarrow> int option \<Rightarrow> int option \<Rightarrow>
   options option \<Rightarrow> int option \<Rightarrow> ProfileResult" where
  "assemble name proofBytes' publicWitnessBytes' witnessBytes' acirBytes'
            publicInputCount' constraintCount' opts vkBytes =
     (let instructionDataBytes' = proofBytes' + publicWitnessBytes';
          usesALT' = (case opts of None \<Rightarrow> False
                      | Some o' \<Rightarrow> (case usesALT o' of None \<Rightarrow> False | Some b \<Rightarrow> b));
          effectiveInstructionLimit' =
            (if usesALT' then SAFE_INSTRUCTION_DATA_LIMIT_ALT else SAFE_INSTRUCTION_DATA_LIMIT);
          w1 = (if instructionDataBytes' > effectiveInstructionLimit'
                then [''Instruction data ('' @ show_int instructionDataBytes' @ '' bytes) exceeds ''
                      @ (if usesALT' then ''ALT-adjusted'' else ''safe'')
                      @ '' limit ('' @ show_int effectiveInstructionLimit' @ '')'']
                else []);
          w2 = (if instructionDataBytes' > SOLANA_TX_MAX_BYTES
                then [''Instruction data exceeds MAX Solana TX size (''
                      @ show_int SOLANA_TX_MAX_BYTES @ '')'']
                else []);
          w3 = (case publicInputCount' of
                  None \<Rightarrow> []
                | Some n \<Rightarrow>
                    if n \<noteq> 0 \<and> n > 8
                    then [''High public input count ('' @ show_int n
                          @ ''). Consider hashing/packing.'']
                    else []);
          totalCU' = predictComputeUnits publicInputCount' constraintCount';
          w4 = (if totalCU' > 900000
                then [''High CU usage ('' @ show_int totalCU'
                      @ ''). Priority fees required to land.'']
                else []);
          warnings' = w1 @ w2 @ w3 @ w4;
          priorityFees' = estimatePriorityFees totalCU';
          vkRentEstimateSOL' = estimateRent vkBytes;
          status' = (if instructionDataBytes' > SOLANA_TX_MAX_BYTES then FAIL
                     else if length warnings' > 0 then WARN
                     else PASS)
      in \<lparr> circuitName = name,
           proofBytes = proofBytes',
           publicWitnessBytes = publicWitnessBytes',
           instructionDataBytes = instructionDataBytes',
           effectiveInstructionLimit = effectiveInstructionLimit',
           publicInputCount = publicInputCount',
           constraintCount = constraintCount',
           totalCU = totalCU',
           priorityFees = priorityFees',
           vkRentEstimateSOL = vkRentEstimateSOL',
           witnessBytes = witnessBytes',
           acirBytes = acirBytes',
           fitsInSolanaTx = (instructionDataBytes' \<le> SOLANA_TX_MAX_BYTES),
           status = status',
           warnings = warnings' \<rparr>)"

definition profileCircuit ::
  "filesystem \<Rightarrow> string \<Rightarrow> options option \<Rightarrow> error + ProfileResult" where
  "profileCircuit fs circuitRoot opts =
     (case resolveCircuitArtifacts fs circuitRoot of
        Inl e \<Rightarrow> Inl e
      | Inr a \<Rightarrow>
     (case statSync_size fs (proofPath a) of
        Inl e \<Rightarrow> Inl e
      | Inr proofBytes' \<Rightarrow>
     (case statSync_size fs (pwPath a) of
        Inl e \<Rightarrow> Inl e
      | Inr publicWitnessBytes' \<Rightarrow>
     (case sizeIfExists fs (witnessPath a) of
        Inl e \<Rightarrow> Inl e
      | Inr witnessBytes' \<Rightarrow>
     (case sizeIfExists fs (acirPath a) of
        Inl e \<Rightarrow> Inl e
      | Inr acirBytes' \<Rightarrow>
     (case estimatePublicInputs fs (pwPath a) of
        Inl e \<Rightarrow> Inl e
      | Inr publicInputCount' \<Rightarrow>
     (case extractConstraintCount fs (acirPath a) of
        Inl e \<Rightarrow> Inl e
      | Inr constraintCount' \<Rightarrow>
     (case sizeIfExists fs (vkPath a) of
        Inl e \<Rightarrow> Inl e
      | Inr vkBytes \<Rightarrow>
          Inr (assemble (artifacts.circuitName a) proofBytes' publicWitnessBytes'
                 witnessBytes' acirBytes' publicInputCount' constraintCount'
                 opts vkBytes)))))))))"

subsection \<open>Vocabulary of the statements and example file systems\<close>


text \<open>
  A circuit project \<^verbatim>\<open>/c\<close> whose \<^verbatim>\<open>target\<close> directory holds the given files, listed
  in the order given.
\<close>

definition build_dir :: "(string \<times> node) list \<Rightarrow> filesystem" where
  "build_dir files =
     map_of ((''/c/target'', Dir 4096 (map fst files))
             # map (\<lambda>(name, n). (''/c/target/'' @ name, n)) files)"

definition fs_small :: filesystem where
  "fs_small = build_dir
     [(''one.proof'', File 300 NotJSON), (''one.pw'', File 200 NotJSON)]"


definition fs_wide :: filesystem where
  "fs_wide = build_dir
     [(''one.proof'', File 300 NotJSON), (''one.pw'', File 320 NotJSON)]"

definition fs_big :: filesystem where
  "fs_big = build_dir
     [(''one.proof'', File 1000 NotJSON), (''one.pw'', File 300 NotJSON)]"




definition fs_negative_length :: filesystem where
  "fs_negative_length = build_dir
     [(''one.json'',
       File 34 (JSON (JObj [(''constraints'', JObj [(''length'', JNum (- 100000))])]))),
      (''one.proof'', File 300 NotJSON), (''one.pw'', File 200 NotJSON)]"

definition fs_constraints :: filesystem where
  "fs_constraints = build_dir
     [(''one.json'',
       File 23 (JSON (JObj [(''constraints'', JArr [JNum 1, JNum 2, JNum 3])]))),
      (''one.proof'', File 300 NotJSON), (''one.pw'', File 200 NotJSON)]"

definition fs_empty_vk :: filesystem where
  "fs_empty_vk = build_dir
     [(''one.proof'', File 300 NotJSON), (''one.pw'', File 200 NotJSON),
      (''one.vk'', File 0 NotJSON)]"



section \<open>Properties\<close>

subsection \<open>Auxiliary facts\<close>

declare show_nat.simps [simp del]

lemma sizeIfExists_eq: "sizeIfExists fs p = Inr (map_option node_size (fs p))"
  by (cases "fs p") (simp_all add: sizeIfExists_def existsSync_def statSync_size_def)

lemma resolve_paths:
  assumes "resolveCircuitArtifacts fs circuitRoot = Inr a"
  shows "proofPath a = path_join (path_join circuitRoot ''target'') (artifacts.circuitName a @ ''.proof'')"
    and "pwPath a = path_join (path_join circuitRoot ''target'') (artifacts.circuitName a @ ''.pw'')"
    and "witnessPath a = path_join (path_join circuitRoot ''target'') (artifacts.circuitName a @ ''.gz'')"
    and "acirPath a = path_join (path_join circuitRoot ''target'') (artifacts.circuitName a @ ''.json'')"
    and "vkPath a = path_join (path_join circuitRoot ''target'') (artifacts.circuitName a @ ''.vk'')"
  using assms unfolding resolveCircuitArtifacts_def Let_def
  by (auto split: if_splits sum.splits option.splits)


text \<open>A run that returns a result has read every artifact and assembled the result.\<close>

lemma profileCircuit_Inr:
  assumes "profileCircuit fs circuitRoot opts = Inr r"
  obtains a pb wb pic cc where
    "resolveCircuitArtifacts fs circuitRoot = Inr a"
    "statSync_size fs (proofPath a) = Inr pb"
    "statSync_size fs (pwPath a) = Inr wb"
    "estimatePublicInputs fs (pwPath a) = Inr pic"
    "extractConstraintCount fs (acirPath a) = Inr cc"
    "r = assemble (artifacts.circuitName a) pb wb
           (map_option node_size (fs (witnessPath a)))
           (map_option node_size (fs (acirPath a))) pic cc opts
           (map_option node_size (fs (vkPath a)))"
  using assms unfolding profileCircuit_def sizeIfExists_eq
  by (auto split: sum.splits)

lemma profileCircuit_run:
  assumes "resolveCircuitArtifacts fs circuitRoot = Inr a"
    and "statSync_size fs (proofPath a) = Inr pb"
    and "statSync_size fs (pwPath a) = Inr wb"
    and "estimatePublicInputs fs (pwPath a) = Inr pic"
    and "extractConstraintCount fs (acirPath a) = Inr cc"
  shows "profileCircuit fs circuitRoot opts =
         Inr (assemble (artifacts.circuitName a) pb wb
           (map_option node_size (fs (witnessPath a)))
           (map_option node_size (fs (acirPath a))) pic cc opts
           (map_option node_size (fs (vkPath a))))"
  using assms unfolding profileCircuit_def sizeIfExists_eq by simp

lemma estimatePublicInputs_nonneg:
  assumes "estimatePublicInputs fs p = Inr (Some n)"
  shows "0 \<le> n"
  using assms unfolding estimatePublicInputs_def readFileSync_length_def FIELD_ELEMENT_BYTES_def
  by (auto split: if_splits option.splits node.splits simp: pos_imp_zdiv_nonneg_iff)

lemma assemble_fields:
  "ProfileResult.circuitName (assemble nm pb wb wt ab pic cc opts vk) = nm"
  "proofBytes (assemble nm pb wb wt ab pic cc opts vk) = pb"
  "publicWitnessBytes (assemble nm pb wb wt ab pic cc opts vk) = wb"
  "instructionDataBytes (assemble nm pb wb wt ab pic cc opts vk) = pb + wb"
  "publicInputCount (assemble nm pb wb wt ab pic cc opts vk) = pic"
  "constraintCount (assemble nm pb wb wt ab pic cc opts vk) = cc"
  "totalCU (assemble nm pb wb wt ab pic cc opts vk) = predictComputeUnits pic cc"
  "vkRentEstimateSOL (assemble nm pb wb wt ab pic cc opts vk) = estimateRent vk"
  "witnessBytes (assemble nm pb wb wt ab pic cc opts vk) = wt"
  "acirBytes (assemble nm pb wb wt ab pic cc opts vk) = ab"
  "fitsInSolanaTx (assemble nm pb wb wt ab pic cc opts vk) = (pb + wb \<le> 1232)"
  by (simp_all add: assemble_def Let_def SOLANA_TX_MAX_BYTES_def)

lemma assemble_limit:
  "effectiveInstructionLimit (assemble nm pb wb wt ab pic cc opts vk) =
     (if opts = Some \<lparr> usesALT = Some True \<rparr> then 750 else 900)"
  by (cases opts)
     (auto simp: assemble_def Let_def SAFE_INSTRUCTION_DATA_LIMIT_def
        SAFE_INSTRUCTION_DATA_LIMIT_ALT_def split: option.splits)

lemma assemble_status:
  "status (assemble nm pb wb wt ab pic cc opts vk) =
     (if pb + wb > 1232 then FAIL
      else if warnings (assemble nm pb wb wt ab pic cc opts vk) \<noteq> [] then WARN
      else PASS)"
  by (simp add: assemble_def Let_def SOLANA_TX_MAX_BYTES_def)




text \<open>A \<^verbatim>\<open>constraints\<close> array gives its length as the count.\<close>

lemma extract_array:
  assumes "fs p = Some (File n (JSON (JObj kvs)))"
    and "map_of kvs ''constraints'' = Some (JArr xs)"
  shows "extractConstraintCount fs p = Inr (Some (int (length xs)))"
  using assms
  by (simp add: extractConstraintCount_def existsSync_def constraints_length_def
        readFileSync_JSON_parse_def optional_length_def as_count_def)

text \<open>
  The rent estimate of a result: absent when the verification-key path does not exist
  and when its size is 0; otherwise the size in kilobytes times the rate, rounded to
  four decimals.
\<close>

lemma rent_estimate_eq:
  assumes "profileCircuit fs circuitRoot opts = Inr r"
  shows "vkRentEstimateSOL r =
         (case fs (path_join (path_join circuitRoot ''target'')
                     (ProfileResult.circuitName r @ ''.vk'')) of
            None \<Rightarrow> None
          | Some n \<Rightarrow>
              if node_size n = 0 then None
              else Some (Number_toFixed 4 ((of_int (node_size n) / 1024) * (7 / 1000))))"
proof -
  from assms obtain a pb wb pic cc where
    a: "resolveCircuitArtifacts fs circuitRoot = Inr a"
    and "statSync_size fs (proofPath a) = Inr pb"
    and "statSync_size fs (pwPath a) = Inr wb"
    and "estimatePublicInputs fs (pwPath a) = Inr pic"
    and "extractConstraintCount fs (acirPath a) = Inr cc"
    and r: "r = assemble (artifacts.circuitName a) pb wb
                  (map_option node_size (fs (witnessPath a)))
                  (map_option node_size (fs (acirPath a))) pic cc opts
                  (map_option node_size (fs (vkPath a)))"
    by (rule profileCircuit_Inr)
  show ?thesis
    unfolding r assemble_fields resolve_paths(5) [OF a, symmetric]
    by (cases "fs (vkPath a)") (simp_all add: estimateRent_def RENT_SOL_PER_KB_def)
qed

subsection \<open>The example runs\<close>

lemmas run_defs =
  profileCircuit_def build_dir_def resolveCircuitArtifacts_def path_join_def existsSync_def
  readdirSync_def endsWith_def statSync_size_def sizeIfExists_def estimatePublicInputs_def
  readFileSync_length_def extractConstraintCount_def constraints_length_def
  readFileSync_JSON_parse_def optional_length_def as_count_def FIELD_ELEMENT_BYTES_def

lemma run_small:
  "profileCircuit fs_small ''/c'' None =
   Inr (assemble ''one'' 300 200 None None (Some 6) None None None)"
  by (simp add: fs_small_def run_defs)

lemma run_wide:
  "profileCircuit fs_wide ''/c'' None =
   Inr (assemble ''one'' 300 320 None None (Some 10) None None None)"
  by (simp add: fs_wide_def run_defs)

lemma run_big:
  "profileCircuit fs_big ''/c'' opts =
   Inr (assemble ''one'' 1000 300 None None (Some 9) None opts None)"
  by (simp add: fs_big_def run_defs)


lemma run_negative_length:
  "profileCircuit fs_negative_length ''/c'' None =
   Inr (assemble ''one'' 300 200 None (Some 34) (Some 6) (Some (- 100000)) None None)"
  by (simp add: fs_negative_length_def run_defs)

lemma run_constraints:
  "profileCircuit fs_constraints ''/c'' None =
   Inr (assemble ''one'' 300 200 None (Some 23) (Some 6) (Some 3) None None)"
  by (simp add: fs_constraints_def run_defs)

lemma run_empty_vk:
  "profileCircuit fs_empty_vk ''/c'' None =
   Inr (assemble ''one'' 300 200 None None (Some 6) None None (Some 0))"
  by (simp add: fs_empty_vk_def run_defs)



subsection \<open>Status derivation\<close>

text \<open>
  Claim C1. Every result \<open>r\<close> that \<open>profileCircuit\<close> returns has status \<open>FAIL\<close> when
  \<open>instructionDataBytes r\<close> exceeds 1232, whatever the other metrics are; otherwise
  \<open>WARN\<close> when the warning list is not empty; otherwise \<open>PASS\<close>. So the status is
  \<open>PASS\<close> exactly when there is no warning and the instruction data is at most 1232
  bytes.
\<close>

theorem C1_status_derivation:
  assumes "profileCircuit fs circuitRoot opts = Inr r"
  shows "status r =
           (if instructionDataBytes r > 1232 then FAIL
            else if warnings r \<noteq> [] then WARN
            else PASS)
         \<and> (status r = PASS \<longleftrightarrow> warnings r = [] \<and> instructionDataBytes r \<le> 1232)"
proof -
  from assms obtain nm pb wb wt ab pic cc vk
    where r: "r = assemble nm pb wb wt ab pic cc opts vk"
    by (rule profileCircuit_Inr)
  have "status r =
           (if instructionDataBytes r > 1232 then FAIL
            else if warnings r \<noteq> [] then WARN
            else PASS)"
    unfolding r assemble_status assemble_fields by simp
  then show ?thesis by (auto split: if_splits)
qed

theorem C1_witness:
  "profileCircuit fs_wide ''/c'' None =
     Inr (assemble ''one'' 300 320 None None (Some 10) None None None)
   \<and> instructionDataBytes (assemble ''one'' 300 320 None None (Some 10) None None None) = 620
   \<and> warnings (assemble ''one'' 300 320 None None (Some 10) None None None) \<noteq> []
   \<and> status (assemble ''one'' 300 320 None None (Some 10) None None None) = WARN"
proof -
  have w: "warnings (assemble ''one'' 300 320 None None (Some 10) None None None) \<noteq> []"
    by (simp add: assemble_def Let_def)
  from C1_status_derivation [OF run_wide] w show ?thesis
    by (simp add: run_wide assemble_fields)
qed

text \<open>
  Claim C9. In every result that \<open>profileCircuit\<close> returns, the status is \<open>FAIL\<close>
  exactly when \<open>fitsInSolanaTx\<close> is false; a result with status \<open>PASS\<close> or \<open>WARN\<close>
  fits.
\<close>

theorem C9_fail_iff_not_fits:
  assumes "profileCircuit fs circuitRoot opts = Inr r"
  shows "(status r = FAIL \<longleftrightarrow> \<not> fitsInSolanaTx r)
         \<and> ((status r = PASS \<or> status r = WARN) \<longleftrightarrow> fitsInSolanaTx r)"
proof -
  from assms obtain nm pb wb wt ab pic cc vk
    where r: "r = assemble nm pb wb wt ab pic cc opts vk"
    by (rule profileCircuit_Inr)
  show ?thesis
    unfolding r assemble_status assemble_fields by auto
qed

theorem C9_witness:
  "profileCircuit fs_big ''/c'' None =
     Inr (assemble ''one'' 1000 300 None None (Some 9) None None None)
   \<and> status (assemble ''one'' 1000 300 None None (Some 9) None None None) = FAIL
   \<and> \<not> fitsInSolanaTx (assemble ''one'' 1000 300 None None (Some 9) None None None)"
  using C9_fail_iff_not_fits [OF run_big, of None]
  by (simp add: run_big assemble_fields)

subsection \<open>Sizes and limits\<close>

text \<open>
  Claim C2. In every result that \<open>profileCircuit\<close> returns, \<open>instructionDataBytes\<close> is
  \<open>proofBytes + publicWitnessBytes\<close>, and these two are the sizes of the circuit's
  \<^verbatim>\<open>.proof\<close> and \<^verbatim>\<open>.pw\<close> files in the \<^verbatim>\<open>target\<close> directory.
\<close>

theorem C2_instruction_data:
  assumes "profileCircuit fs circuitRoot opts = Inr r"
  shows "instructionDataBytes r = proofBytes r + publicWitnessBytes r
         \<and> statSync_size fs (path_join (path_join circuitRoot ''target'')
               (ProfileResult.circuitName r @ ''.proof'')) = Inr (proofBytes r)
         \<and> statSync_size fs (path_join (path_join circuitRoot ''target'')
               (ProfileResult.circuitName r @ ''.pw'')) = Inr (publicWitnessBytes r)"
proof -
  from assms obtain a pb wb pic cc where
    a: "resolveCircuitArtifacts fs circuitRoot = Inr a"
    and pb: "statSync_size fs (proofPath a) = Inr pb"
    and wb: "statSync_size fs (pwPath a) = Inr wb"
    and r: "r = assemble (artifacts.circuitName a) pb wb
                  (map_option node_size (fs (witnessPath a)))
                  (map_option node_size (fs (acirPath a))) pic cc opts
                  (map_option node_size (fs (vkPath a)))"
    by (rule profileCircuit_Inr)
  from pb wb show ?thesis
    unfolding r assemble_fields resolve_paths [OF a] by simp
qed

theorem C2_witness:
  "profileCircuit fs_small ''/c'' None =
     Inr (assemble ''one'' 300 200 None None (Some 6) None None None)
   \<and> fs_small ''/c/target/one.proof'' = Some (File 300 NotJSON)
   \<and> fs_small ''/c/target/one.pw'' = Some (File 200 NotJSON)
   \<and> instructionDataBytes (assemble ''one'' 300 200 None None (Some 6) None None None) = 500"
proof -
  have "fs_small ''/c/target/one.proof'' = Some (File 300 NotJSON)"
    and "fs_small ''/c/target/one.pw'' = Some (File 200 NotJSON)"
    by (simp_all add: fs_small_def build_dir_def)
  with C2_instruction_data [OF run_small] run_small show ?thesis
    by (simp add: assemble_fields)
qed

text \<open>
  Claim C3. In every result that \<open>profileCircuit\<close> returns, \<open>fitsInSolanaTx\<close> is
  \<open>instructionDataBytes \<le> 1232\<close>, and \<open>effectiveInstructionLimit\<close> is 750 when the
  \<^verbatim>\<open>usesALT\<close> option is on and 900 when it is off or not given. With any other
  options the run over the same artifacts also returns a result, with the same
  \<open>instructionDataBytes\<close> and the same \<open>fitsInSolanaTx\<close>.
\<close>

theorem C3_fits_and_limit:
  assumes "profileCircuit fs circuitRoot opts = Inr r"
  shows "fitsInSolanaTx r = (instructionDataBytes r \<le> 1232)
         \<and> effectiveInstructionLimit r =
             (if opts = Some \<lparr> usesALT = Some True \<rparr> then 750 else 900)
         \<and> (\<exists>r'. profileCircuit fs circuitRoot opts' = Inr r'
                \<and> instructionDataBytes r' = instructionDataBytes r
                \<and> fitsInSolanaTx r' = fitsInSolanaTx r)"
proof -
  from assms obtain a pb wb pic cc where
    a: "resolveCircuitArtifacts fs circuitRoot = Inr a"
    and pb: "statSync_size fs (proofPath a) = Inr pb"
    and wb: "statSync_size fs (pwPath a) = Inr wb"
    and pic: "estimatePublicInputs fs (pwPath a) = Inr pic"
    and cc: "extractConstraintCount fs (acirPath a) = Inr cc"
    and r: "r = assemble (artifacts.circuitName a) pb wb
                  (map_option node_size (fs (witnessPath a)))
                  (map_option node_size (fs (acirPath a))) pic cc opts
                  (map_option node_size (fs (vkPath a)))"
    by (rule profileCircuit_Inr)
  have "fitsInSolanaTx r = (instructionDataBytes r \<le> 1232)"
    unfolding r assemble_fields ..
  moreover have "effectiveInstructionLimit r =
      (if opts = Some \<lparr> usesALT = Some True \<rparr> then 750 else 900)"
    unfolding r by (rule assemble_limit)
  moreover have "\<exists>r'. profileCircuit fs circuitRoot opts' = Inr r'
                \<and> instructionDataBytes r' = instructionDataBytes r
                \<and> fitsInSolanaTx r' = fitsInSolanaTx r"
    by (simp add: profileCircuit_run [OF a pb wb pic cc] r assemble_fields)
  ultimately show ?thesis by simp
qed

theorem C3_witness:
  "profileCircuit fs_big ''/c'' (Some \<lparr> usesALT = Some True \<rparr>) =
     Inr (assemble ''one'' 1000 300 None None (Some 9) None (Some \<lparr> usesALT = Some True \<rparr>) None)
   \<and> effectiveInstructionLimit
       (assemble ''one'' 1000 300 None None (Some 9) None (Some \<lparr> usesALT = Some True \<rparr>) None) = 750
   \<and> effectiveInstructionLimit
       (assemble ''one'' 1000 300 None None (Some 9) None None None) = 900
   \<and> fitsInSolanaTx
       (assemble ''one'' 1000 300 None None (Some 9) None (Some \<lparr> usesALT = Some True \<rparr>) None)
     = fitsInSolanaTx (assemble ''one'' 1000 300 None None (Some 9) None None None)
   \<and> \<not> fitsInSolanaTx (assemble ''one'' 1000 300 None None (Some 9) None None None)"
  using C3_fits_and_limit [OF run_big, of "Some \<lparr> usesALT = Some True \<rparr>" None]
    C3_fits_and_limit [OF run_big, of None None]
  by (simp add: run_big assemble_fields)

subsection \<open>Compute units\<close>



text \<open>
  Claim C7. \<open>predictComputeUnits\<close> is monotone in both arguments: for non-negative
  counts \<open>p1 \<le> p2\<close> and \<open>c1 \<le> c2\<close>, the prediction for \<open>(p1, c1)\<close> is at most the
  prediction for \<open>(p2, c2)\<close>.
\<close>

theorem C7_monotone:
  assumes "0 \<le> p1" and "p1 \<le> p2" and "0 \<le> c1" and "c1 \<le> c2"
  shows "predictComputeUnits (Some p1) (Some c1) \<le> predictComputeUnits (Some p2) (Some c2)"
proof -
  have "c1 div 10000 \<le> c2 div 10000"
    using \<open>c1 \<le> c2\<close> by (rule zdiv_mono1) simp
  with \<open>p1 \<le> p2\<close> show ?thesis
    by (simp add: predictComputeUnits_def Let_def)
qed

theorem C7_witness:
  "(0::int) \<le> 6 \<and> (6::int) \<le> 10 \<and> (0::int) \<le> 9999 \<and> (9999::int) \<le> 10000
   \<and> predictComputeUnits (Some 6) (Some 9999) = 222000
   \<and> predictComputeUnits (Some 10) (Some 10000) = 290000
   \<and> predictComputeUnits (Some 6) (Some 9999) \<le> predictComputeUnits (Some 10) (Some 10000)"
  using C7_monotone [of 6 10 9999 10000]
  by (simp add: predictComputeUnits_def)

text \<open>
  Claim C10, as amended. Every result that \<open>profileCircuit\<close> returns with an absent or
  non-negative constraint count has \<open>totalCU\<close> at least 150000. (The count is whatever
  \<^verbatim>\<open>length\<close> the \<^verbatim>\<open>constraints\<close> member of the circuit-definition file carries; it
  is not checked, and a negative one takes the total below the base cost.)
\<close>

theorem C10_total_at_least_base:
  assumes "profileCircuit fs circuitRoot opts = Inr r"
    and "case constraintCount r of None \<Rightarrow> True | Some c \<Rightarrow> 0 \<le> c"
  shows "150000 \<le> totalCU r"
proof -
  from assms(1) obtain a pb wb pic cc where
    "resolveCircuitArtifacts fs circuitRoot = Inr a"
    and "statSync_size fs (proofPath a) = Inr pb"
    and "statSync_size fs (pwPath a) = Inr wb"
    and pic: "estimatePublicInputs fs (pwPath a) = Inr pic"
    and "extractConstraintCount fs (acirPath a) = Inr cc"
    and r: "r = assemble (artifacts.circuitName a) pb wb
                  (map_option node_size (fs (witnessPath a)))
                  (map_option node_size (fs (acirPath a))) pic cc opts
                  (map_option node_size (fs (vkPath a)))"
    by (rule profileCircuit_Inr)
  have p: "0 \<le> (case pic of None \<Rightarrow> 0 | Some n \<Rightarrow> n)"
    using pic by (cases pic) (auto dest: estimatePublicInputs_nonneg)
  have "0 \<le> (case cc of None \<Rightarrow> 0 | Some n \<Rightarrow> n)"
    using assms(2) unfolding r assemble_fields by (cases cc) auto
  then have c: "0 \<le> (case cc of None \<Rightarrow> 0 | Some n \<Rightarrow> n) div 10000"
    by (simp add: pos_imp_zdiv_nonneg_iff)
  from p c show ?thesis
    unfolding r assemble_fields by (simp add: predictComputeUnits_def Let_def)
qed

theorem C10_witness:
  "profileCircuit fs_constraints ''/c'' None =
     Inr (assemble ''one'' 300 200 None (Some 23) (Some 6) (Some 3) None None)
   \<and> constraintCount (assemble ''one'' 300 200 None (Some 23) (Some 6) (Some 3) None None) = Some 3
   \<and> 150000 \<le> totalCU (assemble ''one'' 300 200 None (Some 23) (Some 6) (Some 3) None None)"
proof -
  have "case constraintCount (assemble ''one'' 300 200 None (Some 23) (Some 6) (Some 3) None None)
        of None \<Rightarrow> True | Some c \<Rightarrow> 0 \<le> c"
    by (simp add: assemble_fields)
  from C10_total_at_least_base [OF run_constraints this] show ?thesis
    by (simp add: run_constraints assemble_fields)
qed

theorem C10_counterexample:
  "fs_negative_length ''/c/target/one.json'' =
     Some (File 34 (JSON (JObj [(''constraints'', JObj [(''length'', JNum (- 100000))])])))
   \<and> map_sum id constraintCount (profileCircuit fs_negative_length ''/c'' None)
       = Inr (Some (- 100000))
   \<and> map_sum id totalCU (profileCircuit fs_negative_length ''/c'' None) = Inr 22000"
proof -
  have "fs_negative_length ''/c/target/one.json'' =
     Some (File 34 (JSON (JObj [(''constraints'', JObj [(''length'', JNum (- 100000))])])))"
    by (simp add: fs_negative_length_def build_dir_def)
  then show ?thesis
    by (simp add: run_negative_length assemble_fields predictComputeUnits_def)
qed

subsection \<open>Rent estimate\<close>

text \<open>
  Claim C5, at the input where the code departs from it: a verification-key file that
  exists and is empty. The claim asks for a rent estimate of 0 there;
  \<open>estimateRent\<close> treats the size 0 like an absent size and the result has no rent
  estimate.
\<close>

theorem C5_empty_vk_has_no_rent:
  "fs_empty_vk ''/c/target/one.vk'' = Some (File 0 NotJSON)
   \<and> estimateRent (Some 0) = None
   \<and> map_sum id vkRentEstimateSOL (profileCircuit fs_empty_vk ''/c'' None) = Inr None"
proof -
  have "fs_empty_vk ''/c/target/one.vk'' = Some (File 0 NotJSON)"
    by (simp add: fs_empty_vk_def build_dir_def)
  then show ?thesis
    by (simp add: run_empty_vk assemble_fields estimateRent_def)
qed

subsection \<open>Malformed circuit-definition files\<close>




subsection \<open>Choice of the proof file\<close>




end
